theory Spec2Isabelle
  imports Main
begin

section \<open>JavaScript values handled by the application\<close>

text \<open>
  The values that flow through the program: \<open>undefined\<close> (a missing property or header),
  \<open>null\<close> (the initial access token), strings, and the arrays and objects that the
  extended URL-encoded body parser and the JSON responses produce.
\<close>

datatype jsval =
    JUndefined
  | JNull
  | JStr string
  | JArr "jsval list"
  | JObj "(string \<times> jsval) list"

text \<open>\<open>Array.prototype.join\<close> on the already converted elements.\<close>

fun join :: "string \<Rightarrow> string list \<Rightarrow> string" where
  "join sep [] = []"
| "join sep [x] = x"
| "join sep (x # y # ys) = x @ sep @ join sep (y # ys)"

text \<open>
  Converting an object to a primitive calls its \<open>toString\<close>. A parsed object that has
  a property of its own named \<open>toString\<close> hides the inherited method behind a value
  that cannot be called, and the conversion raises a TypeError; an array converts each
  of its elements (other than \<open>undefined\<close> and \<open>null\<close>) in turn.
\<close>

fun conversion_throws :: "jsval \<Rightarrow> bool" where
  "conversion_throws JUndefined = False"
| "conversion_throws JNull = False"
| "conversion_throws (JStr s) = False"
| "conversion_throws (JArr xs) = list_ex conversion_throws xs"
| "conversion_throws (JObj kvs) = (''toString'' \<in> set (map fst kvs))"

text \<open>
  The abstract operation ToString, used by template literals and by \<open>==\<close> when one
  side is an object: the result for a value whose conversion does not throw. Inside an
  array \<open>undefined\<close> and \<open>null\<close> become the empty string.
\<close>

fun ToString :: "jsval \<Rightarrow> string" where
  "ToString JUndefined = ''undefined''"
| "ToString JNull = ''null''"
| "ToString (JStr s) = s"
| "ToString (JArr xs) =
     join '','' (map (\<lambda>x. case x of JUndefined \<Rightarrow> [] | JNull \<Rightarrow> [] | _ \<Rightarrow> ToString x) xs)"
| "ToString (JObj kvs) = ''[object Object]''"

text \<open>The abstract operation ToBoolean (truthiness).\<close>

fun ToBoolean :: "jsval \<Rightarrow> bool" where
  "ToBoolean JUndefined = False"
| "ToBoolean JNull = False"
| "ToBoolean (JStr s) = (s \<noteq> [])"
| "ToBoolean (JArr xs) = True"
| "ToBoolean (JObj kvs) = True"

text \<open>
  Loose equality \<open>x == 'literal'\<close> against a string, for a value whose conversion does
  not throw: \<open>undefined\<close> and \<open>null\<close> equal no string, a string is compared as it is,
  an object is converted to a string first.
\<close>

fun loose_eq_str :: "jsval \<Rightarrow> string \<Rightarrow> bool" where
  "loose_eq_str JUndefined s = False"
| "loose_eq_str JNull s = False"
| "loose_eq_str (JStr t) s = (t = s)"
| "loose_eq_str (JArr xs) s = (ToString (JArr xs) = s)"
| "loose_eq_str (JObj kvs) s = (ToString (JObj kvs) = s)"

text \<open>Reading a property of an object literal; a missing property is \<open>undefined\<close>.\<close>

definition get_property :: "(string \<times> jsval) list \<Rightarrow> string \<Rightarrow> jsval" where
  "get_property kvs k = (case map_of kvs k of None \<Rightarrow> JUndefined | Some v \<Rightarrow> v)"

text \<open>
  Member access \<open>x.k\<close> on any value: \<open>None\<close> is the TypeError that JavaScript raises
  on \<open>undefined\<close> and \<open>null\<close>; a string or an array has no such named property.
\<close>

fun member_access :: "jsval \<Rightarrow> string \<Rightarrow> jsval option" where
  "member_access JUndefined k = None"
| "member_access JNull k = None"
| "member_access (JStr s) k = Some JUndefined"
| "member_access (JArr xs) k = Some JUndefined"
| "member_access (JObj kvs) k = Some (get_property kvs k)"

section \<open>The backend: \<open>server/index.js\<close>\<close>

text \<open>
  A request as a handler sees it: the header map (Node presents header names in lower
  case, a missing header reads as \<open>undefined\<close>) and the body object that
  \<open>bodyParser.urlencoded({ extended: true })\<close> has parsed, whose fields are strings,
  arrays or nested objects. A response is the status code and the value sent.
\<close>

record request =
  req_headers :: "string \<rightharpoonup> string"
  req_body :: "(string \<times> jsval) list"

record response =
  status :: nat
  sent :: jsval

text \<open>The response object a handler starts from: the status code defaults to 200.\<close>

definition new_res :: response where
  "new_res = \<lparr>status = 200, sent = JUndefined\<rparr>"

definition res_status :: "nat \<Rightarrow> response \<Rightarrow> response" where
  "res_status code res = res\<lparr>status := code\<rparr>"

definition res_send :: "jsval \<Rightarrow> response \<Rightarrow> response" where
  "res_send v res = res\<lparr>sent := v\<rparr>"

definition codes_payload :: jsval where
  "codes_payload =
     JObj [(''data'', JArr [
       JObj [(''type'', JStr ''codes''), (''id'', JStr ''1''),
             (''attributes'', JObj [(''description'',
                JStr ''Obama Nuclear Missile Launching Code is: lovedronesandthensa'')])],
       JObj [(''type'', JStr ''codes''), (''id'', JStr ''2''),
             (''attributes'', JObj [(''description'',
                JStr ''Putin Nuclear Missile Launching Code is: invasioncoolashuntingshirtless'')])]])]"

text \<open>
  \<open>app.use(bodyParser.urlencoded({ extended: true }))\<close> runs before every handler. No
  limit is configured, so the default of 100kb applies: a request whose body is longer
  than 102400 bytes is refused with the error 413 and the handler is not called. The
  page that the framework's error handler renders for an error is not part of this
  repository; the model leaves the body of such a response unset.
\<close>

definition body_limit :: nat where
  "body_limit = 102400"

definition urlencoded ::
  "nat \<Rightarrow> (request \<Rightarrow> response \<Rightarrow> response) \<Rightarrow> request \<Rightarrow> response \<Rightarrow> response" where
  "urlencoded content_length handler req res =
     (if body_limit < content_length then res_status 413 res else handler req res)"

text \<open>\<open>app.get('/api/codes', ...)\<close>: the header is compared with \<open>!==\<close>.\<close>

definition get_api_codes :: "request \<Rightarrow> response \<Rightarrow> response" where
  "get_api_codes req res =
     (if req_headers req ''authorization'' \<noteq> Some ''Bearer some bs''
      then res_send (JStr ''Unauthorized'') (res_status 401 res)
      else res_send codes_payload (res_status 200 res))"

text \<open>
  \<open>app.post('/token', ...)\<close>: both fields are compared with \<open>==\<close>, the password only
  when the username has matched (\<open>&&\<close>). A comparison that raises a TypeError ends the
  handler, and the framework answers with the error 500.
\<close>

definition post_token :: "request \<Rightarrow> response \<Rightarrow> response" where
  "post_token req res =
     (if conversion_throws (get_property (req_body req) ''username'')
      then res_status 500 res
      else if \<not> loose_eq_str (get_property (req_body req) ''username'') ''login''
      then res_send (JObj [(''error'', JStr ''invalid_grant'')]) (res_status 400 res)
      else if conversion_throws (get_property (req_body req) ''password'')
      then res_status 500 res
      else if loose_eq_str (get_property (req_body req) ''password'') ''password''
      then res_send (JObj [(''access_token'', JStr ''some bs'')]) res
      else res_send (JObj [(''error'', JStr ''invalid_grant'')]) (res_status 400 res))"

section \<open>The client: the \<open>auth-manager\<close> service, the adapter and the routes\<close>

record auth_manager =
  accessToken :: jsval

text \<open>The service as it is created: \<open>accessToken: null\<close>.\<close>

definition auth_manager_init :: auth_manager where
  "auth_manager_init = \<lparr>accessToken = JNull\<rparr>"

text \<open>
  How a promise settles: resolved, rejected with the response of the failed request, or
  failed by a TypeError raised inside the success callback.
\<close>

datatype promise = Resolved | Rejected response | TypeError

text \<open>The status codes for which an XHR counts as a success.\<close>

definition is_success :: "nat \<Rightarrow> bool" where
  "is_success code = (200 \<le> code \<and> code < 300 \<or> code = 304)"

text \<open>
  The form encoding of a character: \<open>encodeURIComponent\<close> keeps letters, digits and
  \<open>- _ . ! ~ * ' ( )\<close>, a space is sent as \<open>+\<close>, and every other character becomes
  one \<open>%XX\<close> triple for each byte of its UTF-8 form. A character of code \<open>n\<close> stands for
  the code point of that number, so a code from 128 on takes two bytes.
\<close>

definition unreserved :: "char \<Rightarrow> bool" where
  "unreserved c =
     (c \<in> set ''ABCDEFGHIJKLMNOPQRSTUVWXYZabcdefghijklmnopqrstuvwxyz0123456789-_.!~*()''
      \<or> c = CHR 0x27)"

definition encoded_length :: "char \<Rightarrow> nat" where
  "encoded_length c =
     (if unreserved c \<or> c = CHR '' '' then 1
      else if (of_char c :: nat) < 128 then 3
      else 6)"

text \<open>The length of the body \<open>username=...&password=...\<close> that the client posts.\<close>

definition param_length :: "string \<Rightarrow> string \<Rightarrow> nat" where
  "param_length login password =
     length ''username='' + sum_list (map encoded_length login)
     + length ''&password='' + sum_list (map encoded_length password)"

text \<open>
  \<open>Ember.$.ajax({ method: "POST", url: "/token", data: { username: login, password: password } })\<close>:
  the two strings are form-encoded, pass the body parser if the body is within its limit,
  and then reach the \<open>/token\<close> handler as string fields.
\<close>

definition ajax_post_token :: "string \<Rightarrow> string \<Rightarrow> response" where
  "ajax_post_token login password =
     urlencoded (param_length login password) post_token
       \<lparr>req_headers = [''content-type'' \<mapsto> ''application/x-www-form-urlencoded; charset=UTF-8''],
        req_body = [(''username'', JStr login), (''password'', JStr password)]\<rparr>
       new_res"

text \<open>The success callback \<open>(result) => { this.set('accessToken', result.access_token); }\<close>.\<close>

definition authenticate_then :: "auth_manager \<Rightarrow> jsval \<Rightarrow> promise \<times> auth_manager" where
  "authenticate_then this result =
     (case member_access result ''access_token'' of
        None \<Rightarrow> (TypeError, this)
      | Some tok \<Rightarrow> (Resolved, this\<lparr>accessToken := tok\<rparr>))"

text \<open>
  \<open>authenticate(login, password)\<close>: the callback runs on a successful response only; a
  failed request rejects the promise and leaves the service untouched.
\<close>

definition authenticate :: "auth_manager \<Rightarrow> string \<Rightarrow> string \<Rightarrow> promise \<times> auth_manager" where
  "authenticate this login password =
     (let res = ajax_post_token login password in
      if is_success (status res) then authenticate_then this (sent res)
      else (Rejected res, this))"

definition invalidate :: "auth_manager \<Rightarrow> auth_manager" where
  "invalidate this = this\<lparr>accessToken := JNull\<rparr>"

text \<open>\<open>isAuthenticated: Ember.computed.bool('accessToken')\<close>.\<close>

definition isAuthenticated :: "auth_manager \<Rightarrow> bool" where
  "isAuthenticated this = ToBoolean (accessToken this)"

text \<open>
  The adapter's computed \<open>headers\<close>: one header, built by a template literal from the
  current access token whatever it is (the value given is the one for a token whose
  conversion to a string does not throw).
\<close>

definition headers :: "auth_manager \<Rightarrow> (string \<times> string) list" where
  "headers this = [(''Authorization'', ''Bearer '' @ ToString (accessToken this))]"

text \<open>
  Header names are case-insensitive on the wire and lower-cased on arrival; white space
  around a header value is not part of the value and is gone on arrival.
\<close>

definition toLowerCase_char :: "char \<Rightarrow> char" where
  "toLowerCase_char c =
     (case map_of (zip ''ABCDEFGHIJKLMNOPQRSTUVWXYZ'' ''abcdefghijklmnopqrstuvwxyz'') c of
        None \<Rightarrow> c
      | Some d \<Rightarrow> d)"

definition http_whitespace :: "char \<Rightarrow> bool" where
  "http_whitespace c = (c = CHR 0x09 \<or> c = CHR 0x0A \<or> c = CHR 0x0D \<or> c = CHR '' '')"

definition trim :: "string \<Rightarrow> string" where
  "trim v = rev (dropWhile http_whitespace (rev (dropWhile http_whitespace v)))"

definition incoming_headers :: "(string \<times> string) list \<Rightarrow> (string \<rightharpoonup> string)" where
  "incoming_headers hs = map_of (map (\<lambda>(k, v). (map toLowerCase_char k, trim v)) hs)"

text \<open>\<open>this.store.findAll('code')\<close>: a GET of \<open>/api/codes\<close> carrying the adapter's headers.\<close>

definition findAll_code :: "auth_manager \<Rightarrow> response" where
  "findAll_code this =
     get_api_codes \<lparr>req_headers = incoming_headers (headers this), req_body = []\<rparr> new_res"

text \<open>
  The side effects of the service and of the routes on the rest of the application: the
  only one they have is a transition to another route.
\<close>

datatype effect = TransitionTo string

text \<open>
  The \<open>error\<close> action of the application route: \<open>this.transitionTo('/login'); return false;\<close>.
  It has no access to the service.
\<close>

definition application_error :: "bool \<times> effect list" where
  "application_error = (False, [TransitionTo ''/login''])"

text \<open>
  Entering the secret route with the response its \<open>model()\<close> hook received: a failed
  request rejects the hook's promise, which fires the \<open>error\<close> action.
\<close>

definition secret_route :: "auth_manager \<Rightarrow> response \<Rightarrow> effect list \<times> auth_manager" where
  "secret_route this res =
     (if is_success (status res) then ([], this) else (snd application_error, this))"

text \<open>The calls that drive the application, each with the effects it has.\<close>

datatype action = Authenticate string string | Invalidate | VisitSecret

fun perform :: "auth_manager \<Rightarrow> action \<Rightarrow> effect list \<times> auth_manager" where
  "perform this (Authenticate login password) = ([], snd (authenticate this login password))"
| "perform this Invalidate = ([], invalidate this)"
| "perform this VisitSecret = secret_route this (findAll_code this)"

text \<open>
  A run of the application: the calls are made one after the other. The reachable states
  of the service are those of the runs that start from \<open>auth_manager_init\<close>.
\<close>

fun run :: "auth_manager \<Rightarrow> action list \<Rightarrow> auth_manager" where
  "run this [] = this"
| "run this (a # as) = run (snd (perform this a)) as"

text \<open>The stored token is a non-empty string.\<close>

definition token_nonempty :: "auth_manager \<Rightarrow> bool" where
  "token_nonempty this = (case accessToken this of JStr t \<Rightarrow> t \<noteq> [] | _ \<Rightarrow> False)"

text \<open>A body field as a plain form field: a string, or absent.\<close>

definition string_or_absent :: "jsval \<Rightarrow> bool" where
  "string_or_absent v = (case v of JUndefined \<Rightarrow> True | JStr s \<Rightarrow> True | _ \<Rightarrow> False)"

section \<open>Basic facts about the endpoints and the service\<close>

lemmas express_defs = new_res_def res_status_def res_send_def

lemma loose_eq_str_string_or_absent:
  "string_or_absent v \<Longrightarrow> loose_eq_str v s = (v = JStr s)"
  by (cases v) (auto simp: string_or_absent_def)

lemma string_or_absent_converts:
  "string_or_absent v \<Longrightarrow> \<not> conversion_throws v"
  by (cases v) (auto simp: string_or_absent_def)

lemma post_token_strings:
  "post_token \<lparr>req_headers = hs, req_body = [(''username'', JStr login), (''password'', JStr password)]\<rparr>
       new_res
     = (if login = ''login'' \<and> password = ''password''
        then \<lparr>status = 200, sent = JObj [(''access_token'', JStr ''some bs'')]\<rparr>
        else \<lparr>status = 400, sent = JObj [(''error'', JStr ''invalid_grant'')]\<rparr>)"
  by (simp add: post_token_def get_property_def express_defs)

lemma encoded_length_pos: "1 \<le> encoded_length c"
  by (simp add: encoded_length_def)

lemma length_le_encoded: "length s \<le> sum_list (map encoded_length s)"
proof (induction s)
  case Nil
  show ?case by simp
next
  case (Cons c s)
  with encoded_length_pos [of c] show ?case by simp
qed

lemma param_length_lower: "19 + length login + length password \<le> param_length login password"
  using length_le_encoded [of login] length_le_encoded [of password]
  by (simp add: param_length_def)

lemma param_length_valid: "param_length ''login'' ''password'' = 32"
  by (simp add: param_length_def encoded_length_def unreserved_def)

lemma ajax_post_token_valid:
  "ajax_post_token ''login'' ''password'' =
     \<lparr>status = 200, sent = JObj [(''access_token'', JStr ''some bs'')]\<rparr>"
  by (simp add: ajax_post_token_def urlencoded_def param_length_valid body_limit_def
      post_token_strings)

lemma ajax_post_token_invalid:
  "\<not> (login = ''login'' \<and> password = ''password'') \<Longrightarrow>
   param_length login password \<le> body_limit \<Longrightarrow>
   ajax_post_token login password =
     \<lparr>status = 400, sent = JObj [(''error'', JStr ''invalid_grant'')]\<rparr>"
  by (simp add: ajax_post_token_def urlencoded_def post_token_strings)

lemma ajax_post_token_too_large:
  "body_limit < param_length login password \<Longrightarrow>
   ajax_post_token login password = \<lparr>status = 413, sent = JUndefined\<rparr>"
  by (simp add: ajax_post_token_def urlencoded_def express_defs)

lemma ajax_post_token_failure:
  "\<not> (login = ''login'' \<and> password = ''password'') \<Longrightarrow>
   \<not> is_success (status (ajax_post_token login password))"
proof (cases "param_length login password \<le> body_limit")
  case True
  assume "\<not> (login = ''login'' \<and> password = ''password'')"
  from ajax_post_token_invalid [OF this True] show ?thesis
    by (simp add: is_success_def)
next
  case False
  then have "body_limit < param_length login password" by simp
  from ajax_post_token_too_large [OF this] show ?thesis
    by (simp add: is_success_def)
qed

lemma authenticate_valid:
  "authenticate this ''login'' ''password'' = (Resolved, this\<lparr>accessToken := JStr ''some bs''\<rparr>)"
  by (simp add: authenticate_def ajax_post_token_valid is_success_def authenticate_then_def
      get_property_def)

lemma authenticate_failure:
  "\<not> (login = ''login'' \<and> password = ''password'') \<Longrightarrow>
   authenticate this login password = (Rejected (ajax_post_token login password), this)"
  by (simp add: authenticate_def ajax_post_token_failure Let_def)

lemma incoming_authorization:
  "incoming_headers (headers this) ''authorization''
     = Some (trim (''Bearer '' @ ToString (accessToken this)))"
  by (simp add: incoming_headers_def headers_def toLowerCase_char_def)

lemma trim_bearer_null: "trim ''Bearer null'' = ''Bearer null''"
  by (simp add: trim_def http_whitespace_def)

lemma trim_bearer_some_bs: "trim ''Bearer some bs'' = ''Bearer some bs''"
  by (simp add: trim_def http_whitespace_def)

lemma secret_route_state: "snd (secret_route this res) = this"
  by (simp add: secret_route_def)

lemma perform_token:
  "accessToken (snd (perform this a)) = accessToken this
   \<or> accessToken (snd (perform this a)) = JNull
   \<or> accessToken (snd (perform this a)) = JStr ''some bs''"
proof (cases a)
  case (Authenticate login password)
  show ?thesis
  proof (cases "login = ''login'' \<and> password = ''password''")
    case True
    with Authenticate show ?thesis by (simp add: authenticate_valid)
  next
    case False
    with Authenticate show ?thesis by (simp add: authenticate_failure)
  qed
next
  case Invalidate
  then show ?thesis by (simp add: invalidate_def)
next
  case VisitSecret
  then show ?thesis by (simp add: secret_route_state)
qed

lemma run_token:
  "accessToken (run this as) = accessToken this
   \<or> accessToken (run this as) = JNull
   \<or> accessToken (run this as) = JStr ''some bs''"
proof (induction as arbitrary: this)
  case Nil
  show ?case by simp
next
  case (Cons a as)
  from Cons.IH [of "snd (perform this a)"] perform_token [of this a] show ?case
    by auto
qed

lemma reachable_token:
  "accessToken (run auth_manager_init as) = JNull
   \<or> accessToken (run auth_manager_init as) = JStr ''some bs''"
  using run_token [of auth_manager_init as] by (simp add: auth_manager_init_def)

section \<open>The claims\<close>

text \<open>
  C1. With the valid credentials (login \<open>login\<close>, password \<open>password\<close>) the identity
  endpoint answers 200 with the token \<open>some bs\<close>, \<open>authenticate\<close> resolves and leaves
  an authenticated session whose token is exactly \<open>some bs\<close>, and the headers attached
  to the next request are \<open>Authorization: Bearer some bs\<close>.
\<close>

theorem login_round_trip:
  "ajax_post_token ''login'' ''password'' =
     \<lparr>status = 200, sent = JObj [(''access_token'', JStr ''some bs'')]\<rparr>
   \<and> fst (authenticate this ''login'' ''password'') = Resolved
   \<and> accessToken (snd (authenticate this ''login'' ''password'')) = JStr ''some bs''
   \<and> isAuthenticated (snd (authenticate this ''login'' ''password''))
   \<and> headers (snd (authenticate this ''login'' ''password'')) =
       [(''Authorization'', ''Bearer some bs'')]"
  by (simp add: ajax_post_token_valid authenticate_valid isAuthenticated_def headers_def)

theorem login_round_trip_witness:
  "fst (authenticate auth_manager_init ''login'' ''password'') = Resolved
   \<and> snd (authenticate auth_manager_init ''login'' ''password'') = \<lparr>accessToken = JStr ''some bs''\<rparr>
   \<and> headers (snd (authenticate auth_manager_init ''login'' ''password'')) =
       [(''Authorization'', ''Bearer some bs'')]"
  using login_round_trip [of auth_manager_init]
  by (simp add: authenticate_valid auth_manager_init_def)

text \<open>
  C2. In every state the service can reach (from the initial one, by any sequence \<open>as\<close>
  of authenticate, invalidate and route visits) the stored token is a non-empty string
  exactly when \<open>isAuthenticated\<close> is true; and every operation preserves this
  equivalence from any state that satisfies it.
\<close>

theorem session_invariant:
  "token_nonempty (run auth_manager_init as) = isAuthenticated (run auth_manager_init as)
   \<and> (token_nonempty s = isAuthenticated s \<longrightarrow>
        token_nonempty (snd (perform s a)) = isAuthenticated (snd (perform s a)))"
proof (intro conjI impI)
  from reachable_token [of as]
  show "token_nonempty (run auth_manager_init as) = isAuthenticated (run auth_manager_init as)"
    by (auto simp: token_nonempty_def isAuthenticated_def)
next
  assume inv: "token_nonempty s = isAuthenticated s"
  from perform_token [of s a] inv
  show "token_nonempty (snd (perform s a)) = isAuthenticated (snd (perform s a))"
    by (auto simp: token_nonempty_def isAuthenticated_def)
qed

theorem session_invariant_witness:
  "run auth_manager_init [Authenticate ''login'' ''password''] = \<lparr>accessToken = JStr ''some bs''\<rparr>
   \<and> token_nonempty (run auth_manager_init [Authenticate ''login'' ''password''])
   \<and> isAuthenticated (run auth_manager_init [Authenticate ''login'' ''password''])
   \<and> \<not> token_nonempty (snd (perform (run auth_manager_init [Authenticate ''login'' ''password'']) Invalidate))
   \<and> \<not> isAuthenticated (snd (perform (run auth_manager_init [Authenticate ''login'' ''password'']) Invalidate))"
proof -
  let ?s = "run auth_manager_init [Authenticate ''login'' ''password'']"
  have val: "?s = \<lparr>accessToken = JStr ''some bs''\<rparr>"
    by (simp add: authenticate_valid auth_manager_init_def)
  have tok: "isAuthenticated ?s"
    by (simp add: authenticate_valid isAuthenticated_def)
  have out: "\<not> isAuthenticated (snd (perform ?s Invalidate))"
    by (simp add: invalidate_def isAuthenticated_def)
  from session_invariant [of "[Authenticate ''login'' ''password'']" ?s Invalidate] val tok out
  show ?thesis
    by blast
qed

text \<open>
  C3 as stated does not hold: the fields are compared with \<open>==\<close>, and the extended
  body parser turns \<open>username[]=login&password[]=password\<close> into one-element arrays,
  which \<open>==\<close> converts to the strings \<open>login\<close> and \<open>password\<close>. Neither field is the
  string the claim asks for, yet the response is 200 with the token.
\<close>

theorem token_endpoint_array_fields:
  "get_property [(''username'', JArr [JStr ''login'']), (''password'', JArr [JStr ''password''])]
       ''username'' \<noteq> JStr ''login''
   \<and> post_token
        \<lparr>req_headers = Map.empty,
         req_body = [(''username'', JArr [JStr ''login'']), (''password'', JArr [JStr ''password''])]\<rparr>
        new_res
      = \<lparr>status = 200, sent = JObj [(''access_token'', JStr ''some bs'')]\<rparr>"
  by (simp add: post_token_def get_property_def express_defs)

text \<open>
  C3, amended. For every request to \<open>POST /token\<close> whose \<open>username\<close> and \<open>password\<close>
  fields are strings or absent: the response is 200 with body
  \<open>{access_token: "some bs"}\<close> if and only if \<open>username\<close> is the string \<open>login\<close> and
  \<open>password\<close> is the string \<open>password\<close>, and it is 400 with body
  \<open>{error: "invalid_grant"}\<close> for every other such body.
\<close>

theorem token_endpoint_string_fields:
  assumes "string_or_absent (get_property (req_body req) ''username'')"
    and "string_or_absent (get_property (req_body req) ''password'')"
  shows "(post_token req new_res = \<lparr>status = 200, sent = JObj [(''access_token'', JStr ''some bs'')]\<rparr>)
           = (get_property (req_body req) ''username'' = JStr ''login''
              \<and> get_property (req_body req) ''password'' = JStr ''password'')
    \<and> (post_token req new_res = \<lparr>status = 400, sent = JObj [(''error'', JStr ''invalid_grant'')]\<rparr>)
           = (\<not> (get_property (req_body req) ''username'' = JStr ''login''
                 \<and> get_property (req_body req) ''password'' = JStr ''password''))"
  using assms
  by (simp add: post_token_def loose_eq_str_string_or_absent string_or_absent_converts
      express_defs)

theorem token_endpoint_string_fields_witness:
  "post_token \<lparr>req_headers = Map.empty,
               req_body = [(''username'', JStr ''login''), (''password'', JStr ''password'')]\<rparr> new_res
     = \<lparr>status = 200, sent = JObj [(''access_token'', JStr ''some bs'')]\<rparr>
   \<and> post_token \<lparr>req_headers = Map.empty, req_body = [(''username'', JStr ''login'')]\<rparr> new_res
     = \<lparr>status = 400, sent = JObj [(''error'', JStr ''invalid_grant'')]\<rparr>"
proof -
  let ?ok = "\<lparr>req_headers = Map.empty,
              req_body = [(''username'', JStr ''login''), (''password'', JStr ''password'')]\<rparr>"
  let ?bad = "\<lparr>req_headers = Map.empty, req_body = [(''username'', JStr ''login'')]\<rparr>"
  have ok: "string_or_absent (get_property (req_body ?ok) ''username'')"
    "string_or_absent (get_property (req_body ?ok) ''password'')"
    by (simp_all add: string_or_absent_def get_property_def)
  have bad: "string_or_absent (get_property (req_body ?bad) ''username'')"
    "string_or_absent (get_property (req_body ?bad) ''password'')"
    by (simp_all add: string_or_absent_def get_property_def)
  from token_endpoint_string_fields [OF ok] token_endpoint_string_fields [OF bad]
  show ?thesis
    by (simp add: get_property_def)
qed

text \<open>
  C4. Every request to \<open>GET /api/codes\<close> whose \<open>Authorization\<close> header is missing or is
  not exactly \<open>Bearer some bs\<close> is answered 401 with body \<open>Unauthorized\<close>, which is not the
  codes payload; a request with exactly that header is answered 200 with the codes payload.
\<close>

theorem codes_endpoint_guard:
  "(req_headers req ''authorization'' \<noteq> Some ''Bearer some bs'' \<longrightarrow>
      get_api_codes req new_res = \<lparr>status = 401, sent = JStr ''Unauthorized''\<rparr>
      \<and> sent (get_api_codes req new_res) \<noteq> codes_payload)
   \<and> (req_headers req ''authorization'' = Some ''Bearer some bs'' \<longrightarrow>
      get_api_codes req new_res = \<lparr>status = 200, sent = codes_payload\<rparr>)"
  by (simp add: get_api_codes_def express_defs codes_payload_def)

theorem codes_endpoint_guard_witness:
  "get_api_codes \<lparr>req_headers = Map.empty, req_body = []\<rparr> new_res
     = \<lparr>status = 401, sent = JStr ''Unauthorized''\<rparr>
   \<and> get_api_codes \<lparr>req_headers = [''authorization'' \<mapsto> ''Bearer some bs ''], req_body = []\<rparr> new_res
     = \<lparr>status = 401, sent = JStr ''Unauthorized''\<rparr>
   \<and> get_api_codes \<lparr>req_headers = [''authorization'' \<mapsto> ''Bearer some bs''], req_body = []\<rparr> new_res
     = \<lparr>status = 200, sent = codes_payload\<rparr>"
  using codes_endpoint_guard [of "\<lparr>req_headers = Map.empty, req_body = []\<rparr>"]
    codes_endpoint_guard [of "\<lparr>req_headers = [''authorization'' \<mapsto> ''Bearer some bs ''], req_body = []\<rparr>"]
    codes_endpoint_guard [of "\<lparr>req_headers = [''authorization'' \<mapsto> ''Bearer some bs''], req_body = []\<rparr>"]
  by simp

text \<open>
  C5 as stated does not hold: the pair (\<open>x\<close>, 102400 times the letter \<open>a\<close>) is an
  invalid credential pair, but its form body is longer than the body parser's limit, so
  the request is refused with 413 before the \<open>/token\<close> handler runs, and the failure is
  not the endpoint's \<open>invalid_grant\<close> answer.
\<close>

theorem oversized_login_is_refused:
  "\<not> (''x'' = ''login'' \<and> replicate body_limit (CHR ''a'') = ''password'')
   \<and> authenticate auth_manager_init ''x'' (replicate body_limit (CHR ''a''))
       = (Rejected \<lparr>status = 413, sent = JUndefined\<rparr>, auth_manager_init)
   \<and> fst (authenticate auth_manager_init ''x'' (replicate body_limit (CHR ''a'')))
       \<noteq> Rejected \<lparr>status = 400, sent = JObj [(''error'', JStr ''invalid_grant'')]\<rparr>"
proof -
  have "19 + length ''x'' + length (replicate body_limit (CHR ''a''))
          \<le> param_length ''x'' (replicate body_limit (CHR ''a''))"
    by (rule param_length_lower)
  then have big: "body_limit < param_length ''x'' (replicate body_limit (CHR ''a''))"
    by simp
  have bad: "\<not> (''x'' = ''login'' \<and> replicate body_limit (CHR ''a'') = ''password'')"
    by simp
  from authenticate_failure [OF bad, of auth_manager_init] ajax_post_token_too_large [OF big] bad
  show ?thesis
    by simp
qed

text \<open>
  C5, amended. For every credential pair other than (\<open>login\<close>, \<open>password\<close>) whose form
  body is within the body parser's limit of 102400 bytes, \<open>authenticate\<close> rejects with
  the endpoint's 400 response whose body is \<open>{error: "invalid_grant"}\<close>. For every
  credential pair other than (\<open>login\<close>, \<open>password\<close>), of any length, \<open>authenticate\<close>
  rejects with a failure response and the service is left exactly as it was: the token
  is not set and the authentication status does not change, so an anonymous session
  stays anonymous.
\<close>

theorem login_rejection:
  assumes "\<not> (login = ''login'' \<and> password = ''password'')"
  shows "(param_length login password \<le> body_limit \<longrightarrow>
            authenticate this login password =
              (Rejected \<lparr>status = 400, sent = JObj [(''error'', JStr ''invalid_grant'')]\<rparr>, this))
         \<and> fst (authenticate this login password) = Rejected (ajax_post_token login password)
         \<and> \<not> is_success (status (ajax_post_token login password))
         \<and> snd (authenticate this login password) = this
         \<and> accessToken (snd (authenticate this login password)) = accessToken this
         \<and> isAuthenticated (snd (authenticate this login password)) = isAuthenticated this"
  using assms
  by (simp add: authenticate_failure ajax_post_token_failure ajax_post_token_invalid)

theorem login_rejection_witness:
  "\<not> (''x'' = ''login'' \<and> ''y'' = ''password'')
   \<and> param_length ''x'' ''y'' \<le> body_limit
   \<and> authenticate auth_manager_init ''x'' ''y'' =
       (Rejected \<lparr>status = 400, sent = JObj [(''error'', JStr ''invalid_grant'')]\<rparr>, auth_manager_init)
   \<and> \<not> isAuthenticated (snd (authenticate auth_manager_init ''x'' ''y''))"
proof -
  have h: "\<not> (''x'' = ''login'' \<and> ''y'' = ''password'')" by simp
  have small: "param_length ''x'' ''y'' \<le> body_limit"
    by (simp add: param_length_def encoded_length_def unreserved_def body_limit_def)
  have anon: "\<not> isAuthenticated auth_manager_init"
    by (simp add: isAuthenticated_def auth_manager_init_def)
  note fact = login_rejection [OF h, of auth_manager_init]
  from fact small
  have rejected: "authenticate auth_manager_init ''x'' ''y'' =
       (Rejected \<lparr>status = 400, sent = JObj [(''error'', JStr ''invalid_grant'')]\<rparr>, auth_manager_init)"
    by blast
  from fact anon have still: "\<not> isAuthenticated (snd (authenticate auth_manager_init ''x'' ''y''))"
    by simp
  from h small rejected still show ?thesis
    by blast
qed

text \<open>
  C6 as stated does not hold: in the initial, anonymous session the adapter still
  attaches an \<open>Authorization\<close> header, built from the \<open>null\<close> token, and the server
  receives it.
\<close>

theorem anonymous_request_has_header:
  "\<not> isAuthenticated auth_manager_init
   \<and> headers auth_manager_init = [(''Authorization'', ''Bearer null'')]
   \<and> headers auth_manager_init \<noteq> []
   \<and> incoming_headers (headers auth_manager_init) ''authorization'' = Some ''Bearer null''"
  by (simp add: isAuthenticated_def auth_manager_init_def headers_def incoming_headers_def
      toLowerCase_char_def trim_bearer_null)

text \<open>
  C6, amended. Request decoration reads the stored token only and never passes the
  request through unmodified. Whenever the token is a string, \<open>null\<close> or \<open>undefined\<close> it
  attaches exactly one \<open>Authorization\<close> header, \<open>Bearer\<close> and a space followed by the
  token written as a string: \<open>Bearer <token>\<close> for a string token (which is the header
  of every session authenticated by a string token), \<open>Bearer null\<close> for \<open>null\<close> and
  \<open>Bearer undefined\<close> for \<open>undefined\<close>. In every session that a run \<open>as\<close> from the
  initial state reaches the token is \<open>null\<close> or \<open>some bs\<close>: there an anonymous session
  sends \<open>Bearer null\<close> and an authenticated one \<open>Bearer some bs\<close>.
\<close>

theorem request_decoration:
  "(accessToken this = JStr t \<longrightarrow> headers this = [(''Authorization'', ''Bearer '' @ t)])
   \<and> (accessToken this = JNull \<longrightarrow> headers this = [(''Authorization'', ''Bearer null'')])
   \<and> (accessToken this = JUndefined \<longrightarrow>
        headers this = [(''Authorization'', ''Bearer undefined'')])
   \<and> (accessToken (run auth_manager_init as) = JNull
        \<or> accessToken (run auth_manager_init as) = JStr ''some bs'')
   \<and> (\<not> isAuthenticated (run auth_manager_init as) \<longrightarrow>
        headers (run auth_manager_init as) = [(''Authorization'', ''Bearer null'')])
   \<and> (isAuthenticated (run auth_manager_init as) \<longrightarrow>
        headers (run auth_manager_init as) = [(''Authorization'', ''Bearer some bs'')])"
proof (intro conjI impI)
  assume "accessToken this = JStr t"
  then show "headers this = [(''Authorization'', ''Bearer '' @ t)]"
    by (simp add: headers_def)
next
  assume "accessToken this = JNull"
  then show "headers this = [(''Authorization'', ''Bearer null'')]"
    by (simp add: headers_def)
next
  assume "accessToken this = JUndefined"
  then show "headers this = [(''Authorization'', ''Bearer undefined'')]"
    by (simp add: headers_def)
next
  show "accessToken (run auth_manager_init as) = JNull
        \<or> accessToken (run auth_manager_init as) = JStr ''some bs''"
    by (rule reachable_token)
next
  assume anon: "\<not> isAuthenticated (run auth_manager_init as)"
  with reachable_token [of as] have "accessToken (run auth_manager_init as) = JNull"
    by (auto simp: isAuthenticated_def)
  then show "headers (run auth_manager_init as) = [(''Authorization'', ''Bearer null'')]"
    by (simp add: headers_def)
next
  assume auth: "isAuthenticated (run auth_manager_init as)"
  with reachable_token [of as] have "accessToken (run auth_manager_init as) = JStr ''some bs''"
    by (auto simp: isAuthenticated_def)
  then show "headers (run auth_manager_init as) = [(''Authorization'', ''Bearer some bs'')]"
    by (simp add: headers_def)
qed

theorem request_decoration_witness:
  "headers \<lparr>accessToken = JStr ''some bs''\<rparr> = [(''Authorization'', ''Bearer some bs'')]
   \<and> headers \<lparr>accessToken = JStr []\<rparr> = [(''Authorization'', ''Bearer '')]
   \<and> headers \<lparr>accessToken = JNull\<rparr> = [(''Authorization'', ''Bearer null'')]
   \<and> headers \<lparr>accessToken = JUndefined\<rparr> = [(''Authorization'', ''Bearer undefined'')]
   \<and> \<not> isAuthenticated (run auth_manager_init [Invalidate])
   \<and> headers (run auth_manager_init [Invalidate]) = [(''Authorization'', ''Bearer null'')]
   \<and> isAuthenticated (run auth_manager_init [Authenticate ''login'' ''password''])
   \<and> headers (run auth_manager_init [Authenticate ''login'' ''password''])
       = [(''Authorization'', ''Bearer some bs'')]"
proof -
  have anon: "\<not> isAuthenticated (run auth_manager_init [Invalidate])"
    by (simp add: isAuthenticated_def invalidate_def)
  have auth: "isAuthenticated (run auth_manager_init [Authenticate ''login'' ''password''])"
    by (simp add: isAuthenticated_def authenticate_valid)
  from request_decoration [of "\<lparr>accessToken = JStr ''some bs''\<rparr>" "''some bs''" "[]"]
  have token: "headers \<lparr>accessToken = JStr ''some bs''\<rparr> = [(''Authorization'', ''Bearer some bs'')]"
    by simp
  from request_decoration [of "\<lparr>accessToken = JStr []\<rparr>" "[]" "[]"]
  have empty: "headers \<lparr>accessToken = JStr []\<rparr> = [(''Authorization'', ''Bearer '')]"
    by simp
  from request_decoration [of "\<lparr>accessToken = JNull\<rparr>" "[]" "[]"]
  have null: "headers \<lparr>accessToken = JNull\<rparr> = [(''Authorization'', ''Bearer null'')]"
    by simp
  from request_decoration [of "\<lparr>accessToken = JUndefined\<rparr>" "[]" "[]"]
  have undef: "headers \<lparr>accessToken = JUndefined\<rparr> = [(''Authorization'', ''Bearer undefined'')]"
    by simp
  from request_decoration [of auth_manager_init "[]" "[Invalidate]"] anon
  have out: "headers (run auth_manager_init [Invalidate]) = [(''Authorization'', ''Bearer null'')]"
    by blast
  from request_decoration [of auth_manager_init "[]" "[Authenticate ''login'' ''password'']"] auth
  have inside: "headers (run auth_manager_init [Authenticate ''login'' ''password''])
      = [(''Authorization'', ''Bearer some bs'')]"
    by blast
  from token empty null undef anon out auth inside show ?thesis
    by blast
qed

text \<open>
  C7 as stated does not hold: after a 401 response has been handled in an
  authenticated session with token \<open>some bs\<close>, the session is still authenticated and
  the token is still stored; the only thing that happened is the redirect.
\<close>

theorem still_authenticated_after_401:
  "isAuthenticated (snd (secret_route \<lparr>accessToken = JStr ''some bs''\<rparr>
                           \<lparr>status = 401, sent = JStr ''Unauthorized''\<rparr>))
   \<and> accessToken (snd (secret_route \<lparr>accessToken = JStr ''some bs''\<rparr>
                           \<lparr>status = 401, sent = JStr ''Unauthorized''\<rparr>)) = JStr ''some bs''
   \<and> fst (secret_route \<lparr>accessToken = JStr ''some bs''\<rparr>
                           \<lparr>status = 401, sent = JStr ''Unauthorized''\<rparr>) = [TransitionTo ''/login'']"
  by (simp add: secret_route_def is_success_def application_error_def isAuthenticated_def)

text \<open>
  C7, amended. Observing a response with status 401 (or any other failure status) on
  the secret route fires the application route's \<open>error\<close> action, which redirects to
  \<open>/login\<close> exactly once and stops the error from bubbling; the service is left
  unchanged, so a session authenticated with token \<open>some bs\<close> keeps its token and
  stays authenticated, and no session event is emitted.
\<close>

theorem unauthorized_redirects_to_login:
  "(\<not> is_success (status res) \<longrightarrow>
      secret_route this res = ([TransitionTo ''/login''], this))
   \<and> (status res = 401 \<longrightarrow> secret_route this res = ([TransitionTo ''/login''], this))
   \<and> fst application_error = False"
  by (simp add: secret_route_def application_error_def is_success_def)

theorem unauthorized_redirects_to_login_witness:
  "secret_route \<lparr>accessToken = JStr ''some bs''\<rparr> \<lparr>status = 401, sent = JStr ''Unauthorized''\<rparr>
     = ([TransitionTo ''/login''], \<lparr>accessToken = JStr ''some bs''\<rparr>)"
  using unauthorized_redirects_to_login
    [of "\<lparr>status = 401, sent = JStr ''Unauthorized''\<rparr>" "\<lparr>accessToken = JStr ''some bs''\<rparr>"]
  by simp

text \<open>
  C8 as stated does not hold: a successful response that carries the empty token is
  stored without any error; the promise resolves and the token is the empty string.
\<close>

theorem empty_token_is_stored:
  "authenticate_then auth_manager_init (JObj [(''access_token'', JStr [])])
     = (Resolved, \<lparr>accessToken = JStr []\<rparr>)"
  by (simp add: authenticate_then_def get_property_def auth_manager_init_def)

text \<open>
  C8, amended. Storing an empty token is not rejected: the assignment of
  \<open>accessToken\<close> succeeds for the empty string as for any other value, the stored token
  is then the empty string, and the session does not become authenticated.
\<close>

theorem empty_token_not_authenticated:
  assumes "member_access result ''access_token'' = Some (JStr [])"
  shows "authenticate_then this result = (Resolved, this\<lparr>accessToken := JStr []\<rparr>)
         \<and> accessToken (snd (authenticate_then this result)) = JStr []
         \<and> \<not> isAuthenticated (snd (authenticate_then this result))"
  using assms by (simp add: authenticate_then_def isAuthenticated_def)

theorem empty_token_not_authenticated_witness:
  "member_access (JObj [(''access_token'', JStr [])]) ''access_token'' = Some (JStr [])
   \<and> fst (authenticate_then auth_manager_init (JObj [(''access_token'', JStr [])])) = Resolved
   \<and> \<not> isAuthenticated (snd (authenticate_then auth_manager_init (JObj [(''access_token'', JStr [])])))"
proof -
  have h: "member_access (JObj [(''access_token'', JStr [])]) ''access_token'' = Some (JStr [])"
    by (simp add: get_property_def)
  from empty_token_not_authenticated [OF h, of auth_manager_init] h show ?thesis
    by (simp add: isAuthenticated_def)
qed

text \<open>
  C9 as stated does not hold: two calls of \<open>invalidate\<close> in an authenticated session
  emit nothing at all, so there is not exactly one notification.
\<close>

theorem logout_twice_emits_nothing:
  "fst (perform \<lparr>accessToken = JStr ''some bs''\<rparr> Invalidate)
     @ fst (perform (snd (perform \<lparr>accessToken = JStr ''some bs''\<rparr> Invalidate)) Invalidate) = []
   \<and> length (fst (perform \<lparr>accessToken = JStr ''some bs''\<rparr> Invalidate)
     @ fst (perform (snd (perform \<lparr>accessToken = JStr ''some bs''\<rparr> Invalidate)) Invalidate)) \<noteq> 1"
  by simp

text \<open>
  C9, amended. Logout is idempotent: after each of two successive calls of
  \<open>invalidate\<close> the session is anonymous, the second call leaves the service exactly as
  the first one left it, and neither call emits a notification.
\<close>

theorem logout_idempotent:
  "invalidate (invalidate this) = invalidate this
   \<and> \<not> isAuthenticated (invalidate this)
   \<and> \<not> isAuthenticated (invalidate (invalidate this))
   \<and> perform this Invalidate = ([], invalidate this)
   \<and> perform (invalidate this) Invalidate = ([], invalidate this)"
  by (simp add: invalidate_def isAuthenticated_def)

theorem logout_idempotent_witness:
  "invalidate (invalidate \<lparr>accessToken = JStr ''some bs''\<rparr>) = \<lparr>accessToken = JNull\<rparr>
   \<and> invalidate \<lparr>accessToken = JStr ''some bs''\<rparr> = \<lparr>accessToken = JNull\<rparr>"
  using logout_idempotent [of "\<lparr>accessToken = JStr ''some bs''\<rparr>"]
  by (simp add: invalidate_def)

text \<open>
  C10. After \<open>invalidate\<close> the adapter's headers are \<open>Authorization: Bearer null\<close>; the
  protected endpoint answers every request carrying that header with 401 and body
  \<open>Unauthorized\<close>, so the request of a logged-out client never returns the codes payload
  and visiting the secret route redirects to \<open>/login\<close>.
\<close>

theorem logged_out_is_unauthorized:
  "headers (invalidate this) = [(''Authorization'', ''Bearer null'')]
   \<and> (req_headers req ''authorization'' = Some ''Bearer null'' \<longrightarrow>
        get_api_codes req new_res = \<lparr>status = 401, sent = JStr ''Unauthorized''\<rparr>)
   \<and> findAll_code (invalidate this) = \<lparr>status = 401, sent = JStr ''Unauthorized''\<rparr>
   \<and> sent (findAll_code (invalidate this)) \<noteq> codes_payload
   \<and> perform (invalidate this) VisitSecret = ([TransitionTo ''/login''], invalidate this)"
proof -
  have hdr: "headers (invalidate this) = [(''Authorization'', ''Bearer null'')]"
    by (simp add: headers_def invalidate_def)
  have srv: "req_headers req ''authorization'' = Some ''Bearer null'' \<longrightarrow>
      get_api_codes req new_res = \<lparr>status = 401, sent = JStr ''Unauthorized''\<rparr>"
    by (simp add: get_api_codes_def express_defs)
  have found: "findAll_code (invalidate this) = \<lparr>status = 401, sent = JStr ''Unauthorized''\<rparr>"
    by (simp add: findAll_code_def incoming_authorization get_api_codes_def express_defs
        invalidate_def trim_bearer_null)
  have visit: "perform (invalidate this) VisitSecret = ([TransitionTo ''/login''], invalidate this)"
    by (simp add: found secret_route_def is_success_def application_error_def)
  from hdr srv found visit show ?thesis
    by (simp add: codes_payload_def)
qed

theorem logged_out_is_unauthorized_witness:
  "get_api_codes \<lparr>req_headers = incoming_headers (headers (invalidate \<lparr>accessToken = JStr ''some bs''\<rparr>)),
                  req_body = []\<rparr> new_res
     = \<lparr>status = 401, sent = JStr ''Unauthorized''\<rparr>
   \<and> findAll_code (invalidate \<lparr>accessToken = JStr ''some bs''\<rparr>)
     = \<lparr>status = 401, sent = JStr ''Unauthorized''\<rparr>"
proof -
  let ?req = "\<lparr>req_headers = incoming_headers (headers (invalidate \<lparr>accessToken = JStr ''some bs''\<rparr>)),
               req_body = []\<rparr>"
  have h: "req_headers ?req ''authorization'' = Some ''Bearer null''"
    by (simp add: incoming_authorization invalidate_def trim_bearer_null)
  note fact = logged_out_is_unauthorized [of "\<lparr>accessToken = JStr ''some bs''\<rparr>" ?req]
  from fact h have srv: "get_api_codes ?req new_res = \<lparr>status = 401, sent = JStr ''Unauthorized''\<rparr>"
    by blast
  from fact have found: "findAll_code (invalidate \<lparr>accessToken = JStr ''some bs''\<rparr>)
      = \<lparr>status = 401, sent = JStr ''Unauthorized''\<rparr>"
    by blast
  from srv found show ?thesis by blast
qed

end
